theory Spec2Isabelle
  imports Main "HOL-Library.Word" "HOL-Library.Sublist"
begin

section \<open>The DOM fragment used by \<open>scripts/utils.js\<close>\<close>

text \<open>
  A JavaScript string is a sequence of UTF-16 code units; \<open>length\<close> and \<open>slice\<close> count
  code units. Tag names and attributes are never inspected by the code under study and
  are kept as plain strings.
\<close>

type_synonym code_unit = "16 word"
type_synonym js_string = "code_unit list"

text \<open>Latin-1 literals as code units, for writing concrete trees.\<close>

definition utf16 :: "string \<Rightarrow> js_string" where
  "utf16 s = map (\<lambda>c. of_char c) s"

text \<open>
  The children of an element are elements (\<open>nodeType = 1\<close>), text nodes
  (\<open>nodeType = 3\<close>) or other character data: CDATA sections (4), processing
  instructions (7) and comments (8). All of them implement \<open>ChildNode.remove()\<close>.
\<close>

datatype char_data_kind = CDATASection | ProcessingInstruction | Comment

datatype node =
    Text js_string
  | Element string "(string \<times> string) list" "node list"
  | CharData char_data_kind js_string

text \<open>
  \<open>node.remove()\<close> takes the node out of its parent's child list and leaves the node's
  own subtree as it is. What a call of \<open>trimNode\<close> leaves at the node's position in its
  parent is therefore either nothing (\<open>Removed\<close>) or the node, possibly changed
  (\<open>Kept\<close>).
\<close>

datatype placement = Removed | Kept node

text \<open>
  The only exception the code under study can meet: the \<open>TypeError\<close> of reading a
  property of \<open>null\<close>. It carries the name of the property that was read.
\<close>

datatype error = TypeError string

section \<open>JavaScript primitives\<close>

text \<open>
  The class \<open>\s\<close> of an ECMAScript regular expression: the WhiteSpace and
  LineTerminator code points. \<open>\S\<close> is its complement.
\<close>

definition is_whitespace :: "code_unit \<Rightarrow> bool" where
  "is_whitespace c \<longleftrightarrow>
     c \<in> set [0x0009, 0x000A, 0x000B, 0x000C, 0x000D, 0x0020, 0x00A0, 0x1680,
               0x2028, 0x2029, 0x202F, 0x205F, 0x3000, 0xFEFF]
     \<or> (0x2000 \<le> c \<and> c \<le> 0x200A)"

text \<open>\<open>/\S/.test(s)\<close>: some code unit of \<open>s\<close> is not whitespace.\<close>

definition regex_test_S :: "js_string \<Rightarrow> bool" where
  "regex_test_S s = list_ex (\<lambda>c. \<not> is_whitespace c) s"

text \<open>
  \<open>s.slice(0, e)\<close> for an integer \<open>e\<close>: a negative end counts from the end of the
  string, and the end is clamped to the string.
\<close>

definition slice_from0 :: "js_string \<Rightarrow> int \<Rightarrow> js_string" where
  "slice_from0 s e =
     (let len = int (length s);
          to = (if e < 0 then max (len + e) 0 else min e len)
      in take (nat to) s)"

section \<open>\<open>trimElementTextToCharLimit\<close>\<close>

text \<open>
  \<open>trimNode\<close> is the inner function of \<open>trimElementTextToCharLimit\<close>; the captured
  variables \<open>limit\<close> (read only) and \<open>count\<close> (read and written) are threaded
  explicitly. It returns what is left at the node's position and the new \<open>count\<close>.

  \<open>trimChildren\<close> is the loop \<open>children.some((child, index) => ...)\<close> over the snapshot
  \<open>Array.from(node.childNodes)\<close>, started at the children not yet visited. It returns
  the child list the element has afterwards. When the callback returns \<open>true\<close> at its
  first test, the loop stops and the children from \<open>child\<close> on stay where they are;
  when it returns \<open>true\<close> at its second test, the children after \<open>child\<close> have been
  removed.
\<close>

fun trimNode :: "int \<Rightarrow> node \<Rightarrow> int \<Rightarrow> placement \<times> int"
  and trimChildren :: "int \<Rightarrow> node list \<Rightarrow> int \<Rightarrow> node list \<times> int" where
  "trimNode limit (Text textContent) count =
     (if count \<ge> limit then (Removed, count)
      else
        let text = (if regex_test_S textContent then textContent else []);
            textContent' = (if count + int (length text) > limit
                            then slice_from0 text (limit - count)
                            else textContent)
        in (Kept (Text textContent'), count + int (length text)))"
| "trimNode limit (Element tag attrs children) count =
     (if count \<ge> limit then (Removed, count)
      else
        let (children', count') = trimChildren limit children count
        in (Kept (Element tag attrs children'), count'))"
| "trimNode limit (CharData kind data) count =
     (if count \<ge> limit then (Removed, count)
      else (Kept (CharData kind data), count))"
| "trimChildren limit [] count = ([], count)"
| "trimChildren limit (child # rest) count =
     (if count \<ge> limit then (child # rest, count)
      else
        let (p, count') = trimNode limit child count;
            kept = (case p of Removed \<Rightarrow> [] | Kept child' \<Rightarrow> [child'])
        in if count' \<ge> limit then (kept, count')
           else
             let (rest', count'') = trimChildren limit rest count'
             in (kept @ rest', count''))"

text \<open>
  \<open>trimNode\<close> above is the function on a node, where no operation can fail. The
  argument of \<open>trimNode\<close> is a JavaScript reference, though: the children taken from
  \<open>childNodes\<close> are nodes, but \<open>root\<close> comes from the caller and may be \<open>null\<close>
  (\<open>None\<close>). \<open>trimNode_ref\<close> is the same body run on a reference, with exceptions
  as results: on \<open>null\<close> the first statement reached dereferences it and throws,
  \<open>node.remove()\<close> when \<open>count >= limit\<close> and \<open>node.nodeType\<close> otherwise; an
  exception thrown by a recursive call or inside the callback of \<open>some\<close> leaves the
  callers at once.
\<close>

fun trimNode_ref :: "int \<Rightarrow> node option \<Rightarrow> int \<Rightarrow> error + placement \<times> int"
  and trimChildren_ref :: "int \<Rightarrow> node list \<Rightarrow> int \<Rightarrow> error + node list \<times> int" where
  "trimNode_ref limit None count =
     (if count \<ge> limit then Inl (TypeError ''remove'')
      else Inl (TypeError ''nodeType''))"
| "trimNode_ref limit (Some (Text textContent)) count =
     (if count \<ge> limit then Inr (Removed, count)
      else
        let text = (if regex_test_S textContent then textContent else []);
            textContent' = (if count + int (length text) > limit
                            then slice_from0 text (limit - count)
                            else textContent)
        in Inr (Kept (Text textContent'), count + int (length text)))"
| "trimNode_ref limit (Some (Element tag attrs children)) count =
     (if count \<ge> limit then Inr (Removed, count)
      else
        case trimChildren_ref limit children count of
          Inl e \<Rightarrow> Inl e
        | Inr (children', count') \<Rightarrow> Inr (Kept (Element tag attrs children'), count'))"
| "trimNode_ref limit (Some (CharData kind data)) count =
     (if count \<ge> limit then Inr (Removed, count)
      else Inr (Kept (CharData kind data), count))"
| "trimChildren_ref limit [] count = Inr ([], count)"
| "trimChildren_ref limit (child # rest) count =
     (if count \<ge> limit then Inr (child # rest, count)
      else
        case trimNode_ref limit (Some child) count of
          Inl e \<Rightarrow> Inl e
        | Inr (p, count') \<Rightarrow>
            let kept = (case p of Removed \<Rightarrow> [] | Kept child' \<Rightarrow> [child'])
            in if count' \<ge> limit then Inr (kept, count')
               else
                 case trimChildren_ref limit rest count' of
                   Inl e \<Rightarrow> Inl e
                 | Inr (rest', count'') \<Rightarrow> Inr (kept @ rest', count''))"

text \<open>
  The exported function: \<open>let count = 0; ...; trimNode(root)\<close>. It returns nothing;
  its effect is what is left at the root's position in the tree, unless the call of
  \<open>trimNode\<close> throws.
\<close>

definition trimElementTextToCharLimit :: "node option \<Rightarrow> int \<Rightarrow> error + placement" where
  "trimElementTextToCharLimit root limit =
     (case trimNode_ref limit root 0 of
        Inl e \<Rightarrow> Inl e
      | Inr (p, count) \<Rightarrow> Inr p)"

text \<open>
  The number of invocations of \<open>trimNode\<close> made by one call, following the recursion of
  \<open>trimNode\<close> and of the loop.
\<close>

fun T_trimNode :: "int \<Rightarrow> node \<Rightarrow> int \<Rightarrow> nat"
  and T_trimChildren :: "int \<Rightarrow> node list \<Rightarrow> int \<Rightarrow> nat" where
  "T_trimNode limit (Text textContent) count = 1"
| "T_trimNode limit (Element tag attrs children) count =
     (if count \<ge> limit then 1 else 1 + T_trimChildren limit children count)"
| "T_trimNode limit (CharData kind data) count = 1"
| "T_trimChildren limit [] count = 0"
| "T_trimChildren limit (child # rest) count =
     (if count \<ge> limit then 0
      else
        let count' = snd (trimNode limit child count)
        in T_trimNode limit child count
           + (if count' \<ge> limit then 0 else T_trimChildren limit rest count'))"

section \<open>Measures on trees\<close>

text \<open>The contents of the text nodes of a tree, in document order.\<close>

fun text_nodes :: "node \<Rightarrow> js_string list" where
  "text_nodes (Text t) = [t]"
| "text_nodes (Element tag attrs children) = concat (map text_nodes children)"
| "text_nodes (CharData kind data) = []"

text \<open>
  The text nodes still in the tree after a call. A root on which \<open>remove()\<close> was
  called has been taken out of the tree it belonged to, so none of its text is retained
  there.
\<close>

fun retained_text_nodes :: "placement \<Rightarrow> js_string list" where
  "retained_text_nodes Removed = []"
| "retained_text_nodes (Kept n) = text_nodes n"

text \<open>
  The effective length of a text: its length if it has a non-whitespace code unit,
  otherwise zero.
\<close>

definition effective_length :: "js_string \<Rightarrow> nat" where
  "effective_length t = (if regex_test_S t then length t else 0)"

definition whitespace_length :: "js_string \<Rightarrow> nat" where
  "whitespace_length t = (if regex_test_S t then 0 else length t)"

definition total_length :: "js_string list \<Rightarrow> nat" where
  "total_length ts = sum_list (map length ts)"

definition total_effective_length :: "js_string list \<Rightarrow> nat" where
  "total_effective_length ts = sum_list (map effective_length ts)"

definition total_whitespace_length :: "js_string list \<Rightarrow> nat" where
  "total_whitespace_length ts = sum_list (map whitespace_length ts)"

fun count_nodes :: "node \<Rightarrow> nat" where
  "count_nodes (Text t) = 1"
| "count_nodes (Element tag attrs children) = 1 + sum_list (map count_nodes children)"
| "count_nodes (CharData kind data) = 1"

text \<open>
  \<open>pruned_from r t\<close>: the tree \<open>r\<close> is \<open>t\<close> with some trailing children detached and
  some text contents shortened, and nothing else changed: every node of \<open>r\<close> is, by
  position, a node of \<open>t\<close> of the same kind, an element keeps its tag name and its
  attributes, and character data other than text keeps its content.
\<close>

fun pruned_from :: "node \<Rightarrow> node \<Rightarrow> bool"
  and pruned_from_list :: "node list \<Rightarrow> node list \<Rightarrow> bool" where
  "pruned_from (Text s') (Text s) \<longleftrightarrow> length s' \<le> length s"
| "pruned_from (Element tag' attrs' cs') (Element tag attrs cs) \<longleftrightarrow>
     tag' = tag \<and> attrs' = attrs \<and> pruned_from_list cs' cs"
| "pruned_from (CharData kind' data') (CharData kind data) \<longleftrightarrow>
     kind' = kind \<and> data' = data"
| "pruned_from (Text s') (Element tag attrs cs) \<longleftrightarrow> False"
| "pruned_from (Text s') (CharData kind data) \<longleftrightarrow> False"
| "pruned_from (Element tag' attrs' cs') (Text s) \<longleftrightarrow> False"
| "pruned_from (Element tag' attrs' cs') (CharData kind data) \<longleftrightarrow> False"
| "pruned_from (CharData kind' data') (Text s) \<longleftrightarrow> False"
| "pruned_from (CharData kind' data') (Element tag attrs cs) \<longleftrightarrow> False"
| "pruned_from_list [] cs \<longleftrightarrow> True"
| "pruned_from_list (c' # cs') [] \<longleftrightarrow> False"
| "pruned_from_list (c' # cs') (c # cs) \<longleftrightarrow> pruned_from c' c \<and> pruned_from_list cs' cs"

text \<open>
  \<open>text_prefixes r t\<close>: every text node of \<open>r\<close> is, by position, a text node of \<open>t\<close>,
  and its content is a prefix of the content it has in \<open>t\<close>.
\<close>

fun text_prefixes :: "node \<Rightarrow> node \<Rightarrow> bool"
  and text_prefixes_list :: "node list \<Rightarrow> node list \<Rightarrow> bool" where
  "text_prefixes (Text s') (Text s) \<longleftrightarrow> prefix s' s"
| "text_prefixes (Element tag' attrs' cs') (Element tag attrs cs) \<longleftrightarrow>
     text_prefixes_list cs' cs"
| "text_prefixes (CharData kind' data') (CharData kind data) \<longleftrightarrow> True"
| "text_prefixes (Text s') (Element tag attrs cs) \<longleftrightarrow> False"
| "text_prefixes (Text s') (CharData kind data) \<longleftrightarrow> False"
| "text_prefixes (Element tag' attrs' cs') (Text s) \<longleftrightarrow> False"
| "text_prefixes (Element tag' attrs' cs') (CharData kind data) \<longleftrightarrow> False"
| "text_prefixes (CharData kind' data') (Text s) \<longleftrightarrow> False"
| "text_prefixes (CharData kind' data') (Element tag attrs cs) \<longleftrightarrow> False"
| "text_prefixes_list [] cs \<longleftrightarrow> True"
| "text_prefixes_list (c' # cs') [] \<longleftrightarrow> False"
| "text_prefixes_list (c' # cs') (c # cs) \<longleftrightarrow>
     text_prefixes c' c \<and> text_prefixes_list cs' cs"

text \<open>A tree is whitespace-only when none of its text nodes has a non-whitespace code unit.\<close>

definition whitespace_only :: "node \<Rightarrow> bool" where
  "whitespace_only n \<longleftrightarrow> \<not> list_ex regex_test_S (text_nodes n)"

section \<open>Concrete trees\<close>

text \<open>The tree of scenario 2: \<open><p>   </p>\<close>.\<close>

definition scenario2 :: node where
  "scenario2 = Element ''p'' [] [Text (utf16 ''   '')]"

text \<open>A text followed by an element without text: \<open><div>AB<br></div>\<close>.\<close>

definition text_then_br :: node where
  "text_then_br = Element ''div'' [] [Text (utf16 ''AB''), Element ''br'' [] []]"

text \<open>The tree of scenario 3: \<open><div>AB<span>CD</span>EF</div>\<close>.\<close>

definition scenario3 :: node where
  "scenario3 =
     Element ''div'' []
       [Text (utf16 ''AB''), Element ''span'' [] [Text (utf16 ''CD'')], Text (utf16 ''EF'')]"

section \<open>Basic facts\<close>

text \<open>
  On a node no dereference fails, in the call or in any call below it, and the result
  is that of \<open>trimNode\<close>.
\<close>

lemma trim_ref_node:
  "trimNode_ref limit (Some n) count = Inr (trimNode limit n count)"
  "trimChildren_ref limit cs count = Inr (trimChildren limit cs count)"
proof (induction limit n count and limit cs count rule: trimNode_trimChildren.induct)
  case (2 limit tag attrs children count)
  then show ?case by (simp add: case_prod_unfold Let_def)
next
  case (5 limit child rest count)
  show ?case
  proof (cases "count \<ge> limit")
    case True
    then show ?thesis by simp
  next
    case False
    obtain p c1 where t: "trimNode limit child count = (p, c1)"
      by (cases "trimNode limit child count")
    have r: "trimNode_ref limit (Some child) count = Inr (p, c1)"
      using 5(1)[OF False] t by simp
    have "\<not> limit \<le> c1 \<Longrightarrow>
        trimChildren_ref limit rest c1 = Inr (trimChildren limit rest c1)"
      using 5(2)[OF False t[symmetric] refl] by simp
    then show ?thesis using False t r by (simp add: case_prod_unfold Let_def)
  qed
qed (simp_all add: Let_def)

lemma trimElementTextToCharLimit_node:
  "trimElementTextToCharLimit (Some node) limit = Inr (fst (trimNode limit node 0))"
  by (simp add: trimElementTextToCharLimit_def trim_ref_node(1) case_prod_unfold)

lemmas eval_defs = trimElementTextToCharLimit_node scenario2_def scenario3_def text_then_br_def
  utf16_def regex_test_S_def is_whitespace_def slice_from0_def whitespace_only_def
  effective_length_def whitespace_length_def

lemma total_length_simps [simp]:
  "total_length [] = 0"
  "total_length (t # ts) = length t + total_length ts"
  "total_length (ts @ us) = total_length ts + total_length us"
  by (simp_all add: total_length_def)

lemma total_effective_length_simps [simp]:
  "total_effective_length [] = 0"
  "total_effective_length (t # ts) = effective_length t + total_effective_length ts"
  "total_effective_length (ts @ us) = total_effective_length ts + total_effective_length us"
  by (simp_all add: total_effective_length_def)

lemma total_whitespace_length_simps [simp]:
  "total_whitespace_length [] = 0"
  "total_whitespace_length (t # ts) = whitespace_length t + total_whitespace_length ts"
  "total_whitespace_length (ts @ us) = total_whitespace_length ts + total_whitespace_length us"
  by (simp_all add: total_whitespace_length_def)

lemma trimNode_kept:
  "count < limit \<Longrightarrow> \<exists>r. fst (trimNode limit n count) = Kept r"
  by (cases n) (simp_all add: Let_def case_prod_unfold)

lemma trimChildren_Cons:
  assumes "count < limit" and "trimNode limit child count = (Kept r, c1)"
  shows "trimChildren limit (child # rest) count =
           (if c1 \<ge> limit then ([r], c1)
            else (r # fst (trimChildren limit rest c1), snd (trimChildren limit rest c1)))"
  using assms by (simp add: case_prod_unfold Let_def)

lemma trimNode_Element:
  assumes "count < limit" and "trimChildren limit cs count = (rs, c')"
  shows "trimNode limit (Element tag attrs cs) count = (Kept (Element tag attrs rs), c')"
  using assms by simp

lemma trim_count_mono:
  "count \<le> snd (trimNode limit n count)"
  "count \<le> snd (trimChildren limit cs count)"
proof (induction limit n count and limit cs count rule: trimNode_trimChildren.induct)
  case (5 limit child rest count)
  show ?case
  proof (cases "count < limit")
    case True
    obtain r c1 where t: "trimNode limit child count = (Kept r, c1)"
      using trimNode_kept[OF True, of child] by (cases "trimNode limit child count") auto
    have le1: "count \<le> c1" using 5(1) True t by simp
    have "\<not> limit \<le> c1 \<Longrightarrow> c1 \<le> snd (trimChildren limit rest c1)"
      using 5(2)[OF _ t[symmetric] refl refl] True by simp
    then show ?thesis using le1 by (auto simp: trimChildren_Cons[OF True t] simp del: trimChildren.simps)
  qed simp
qed (simp_all add: Let_def case_prod_unfold)

lemma slice_from0_take:
  "0 \<le> e \<Longrightarrow> slice_from0 s e = take (nat e) s"
  by (simp add: slice_from0_def Let_def min_def)

lemma trim_budget:
  "count < limit \<Longrightarrow> trimNode limit n count = (Kept r, c') \<Longrightarrow>
     int (total_effective_length (text_nodes r)) \<le> min c' limit - count
     \<and> int (total_length (text_nodes r))
         \<le> min c' limit - count + int (total_whitespace_length (text_nodes n))"
  "count < limit \<Longrightarrow> trimChildren limit cs count = (rs, c') \<Longrightarrow>
     int (total_effective_length (concat (map text_nodes rs))) \<le> min c' limit - count
     \<and> int (total_length (concat (map text_nodes rs)))
         \<le> min c' limit - count + int (total_whitespace_length (concat (map text_nodes cs)))"
proof (induction limit n count and limit cs count arbitrary: r c' and rs c'
    rule: trimNode_trimChildren.induct)
  case (1 limit textContent count)
  then show ?case
    by (auto simp: Let_def slice_from0_take effective_length_def whitespace_length_def
        split: if_splits)
next
  case (2 limit tag attrs children count)
  obtain rs c2 where r: "trimChildren limit children count = (rs, c2)"
    by (cases "trimChildren limit children count")
  show ?case using 2(1)[OF _ 2(2) r] 2(2,3) r by auto
next
  case (3 limit kind data count)
  then show ?case by auto
next
  case (4 limit count)
  then show ?case by auto
next
  case (5 limit child rest count)
  have lt: "count < limit" by fact
  obtain r c1 where t: "trimNode limit child count = (Kept r, c1)"
    using trimNode_kept[OF lt, of child] by (cases "trimNode limit child count") auto
  note h = 5(1)[OF _ lt t]
  have le1: "count \<le> c1" using trim_count_mono(1)[of count limit child] t by simp
  show ?case
  proof (cases "c1 \<ge> limit")
    case True
    then show ?thesis using h lt 5(4) by (auto simp: trimChildren_Cons[OF lt t] simp del: trimChildren.simps)
  next
    case False
    obtain rs' c2 where r: "trimChildren limit rest c1 = (rs', c2)"
      by (cases "trimChildren limit rest c1")
    have h2: "int (total_effective_length (concat (map text_nodes rs'))) \<le> min c2 limit - c1
     \<and> int (total_length (concat (map text_nodes rs')))
         \<le> min c2 limit - c1 + int (total_whitespace_length (concat (map text_nodes rest)))"
      using 5(2)[OF _ t[symmetric] refl refl False _ r] lt False by simp
    show ?thesis using h h2 lt 5(4) False r by (auto simp: trimChildren_Cons[OF lt t] simp del: trimChildren.simps)
  qed
qed

lemma trim_unchanged:
  "count + int (total_effective_length (text_nodes n)) < limit \<Longrightarrow>
     trimNode limit n count = (Kept n, count + int (total_effective_length (text_nodes n)))"
  "count + int (total_effective_length (concat (map text_nodes cs))) < limit \<Longrightarrow>
     trimChildren limit cs count =
       (cs, count + int (total_effective_length (concat (map text_nodes cs))))"
proof (induction limit n count and limit cs count rule: trimNode_trimChildren.induct)
  case (1 limit textContent count)
  then show ?case by (auto simp: Let_def effective_length_def)
next
  case (2 limit tag attrs children count)
  then show ?case by auto
next
  case (3 limit kind data count)
  then show ?case by auto
next
  case (4 limit count)
  then show ?case by auto
next
  case (5 limit child rest count)
  let ?e = "int (total_effective_length (text_nodes child))"
  have lt: "count < limit" and lt1: "count + ?e < limit" using 5(3) by auto
  have t: "trimNode limit child count = (Kept child, count + ?e)"
    using 5(1) lt lt1 by simp
  have "trimChildren limit rest (count + ?e) =
      (rest, count + ?e + int (total_effective_length (concat (map text_nodes rest))))"
    using 5(2)[OF _ t[symmetric] refl refl] lt lt1 5(3) by simp
  then show ?case using lt1 by (simp add: trimChildren_Cons[OF lt t] del: trimChildren.simps)
qed

lemma trim_pruned:
  "count < limit \<Longrightarrow> trimNode limit n count = (Kept r, c') \<Longrightarrow> pruned_from r n"
  "count < limit \<Longrightarrow> trimChildren limit cs count = (rs, c') \<Longrightarrow> pruned_from_list rs cs"
proof (induction limit n count and limit cs count arbitrary: r c' and rs c'
    rule: trimNode_trimChildren.induct)
  case (1 limit textContent count)
  then show ?case by (auto simp: Let_def slice_from0_take split: if_splits)
next
  case (2 limit tag attrs children count)
  obtain rs c2 where r: "trimChildren limit children count = (rs, c2)"
    by (cases "trimChildren limit children count")
  show ?case using 2(1)[OF _ 2(2) r] 2(2,3) r by auto
next
  case (3 limit kind data count)
  then show ?case by auto
next
  case (4 limit count)
  then show ?case by auto
next
  case (5 limit child rest count)
  have lt: "count < limit" by fact
  obtain r c1 where t: "trimNode limit child count = (Kept r, c1)"
    using trimNode_kept[OF lt, of child] by (cases "trimNode limit child count") auto
  note h = 5(1)[OF _ lt t]
  show ?case
  proof (cases "c1 \<ge> limit")
    case True
    then show ?thesis using h lt 5(4)
      by (auto simp: trimChildren_Cons[OF lt t] simp del: trimChildren.simps)
  next
    case False
    obtain rs' c2 where r: "trimChildren limit rest c1 = (rs', c2)"
      by (cases "trimChildren limit rest c1")
    have h2: "pruned_from_list rs' rest"
      using 5(2)[OF _ t[symmetric] refl refl False _ r] lt False by simp
    show ?thesis using h h2 lt 5(4) False r
      by (auto simp: trimChildren_Cons[OF lt t] simp del: trimChildren.simps)
  qed
qed

lemma trim_text_prefixes:
  "count < limit \<Longrightarrow> trimNode limit n count = (Kept r, c') \<Longrightarrow> text_prefixes r n"
  "count < limit \<Longrightarrow> trimChildren limit cs count = (rs, c') \<Longrightarrow> text_prefixes_list rs cs"
proof (induction limit n count and limit cs count arbitrary: r c' and rs c'
    rule: trimNode_trimChildren.induct)
  case (1 limit textContent count)
  then show ?case by (auto simp: Let_def slice_from0_take take_is_prefix split: if_splits)
next
  case (2 limit tag attrs children count)
  obtain rs c2 where r: "trimChildren limit children count = (rs, c2)"
    by (cases "trimChildren limit children count")
  show ?case using 2(1)[OF _ 2(2) r] 2(2,3) r by auto
next
  case (3 limit kind data count)
  then show ?case by auto
next
  case (4 limit count)
  then show ?case by auto
next
  case (5 limit child rest count)
  have lt: "count < limit" by fact
  obtain r c1 where t: "trimNode limit child count = (Kept r, c1)"
    using trimNode_kept[OF lt, of child] by (cases "trimNode limit child count") auto
  note h = 5(1)[OF _ lt t]
  show ?case
  proof (cases "c1 \<ge> limit")
    case True
    then show ?thesis using h lt 5(4)
      by (auto simp: trimChildren_Cons[OF lt t] simp del: trimChildren.simps)
  next
    case False
    obtain rs' c2 where r: "trimChildren limit rest c1 = (rs', c2)"
      by (cases "trimChildren limit rest c1")
    have h2: "text_prefixes_list rs' rest"
      using 5(2)[OF _ t[symmetric] refl refl False _ r] lt False by simp
    show ?thesis using h h2 lt 5(4) False r
      by (auto simp: trimChildren_Cons[OF lt t] simp del: trimChildren.simps)
  qed
qed

lemma T_trim_bound:
  "T_trimNode limit n count \<le> count_nodes n"
  "T_trimChildren limit cs count \<le> sum_list (map count_nodes cs)"
proof (induction limit n count and limit cs count rule: T_trimNode_T_trimChildren.induct)
  case (5 limit child rest count)
  then show ?case by (auto simp: Let_def)
qed auto

lemma trimNode_removed_iff:
  "fst (trimNode limit n count) = Removed \<longleftrightarrow> limit \<le> count"
  by (cases n) (auto simp: Let_def case_prod_unfold)

lemma whitespace_only_effective:
  "\<not> list_ex regex_test_S ts \<Longrightarrow> total_effective_length ts = 0"
  by (induction ts) (auto simp: effective_length_def)

section \<open>The character budget\<close>

text \<open>
  C1. For a limit of at least zero, the effective lengths of the text nodes retained in
  the tree sum to at most \<open>limit\<close>, and the lengths of all retained text nodes sum to
  at most \<open>limit\<close> plus the total length of the whitespace-only text nodes of the
  original tree: whitespace-only text nodes are kept untouched and are not counted.
\<close>

theorem budget_respected_effective:
  assumes "0 \<le> limit" and "trimElementTextToCharLimit (Some root) limit = Inr p"
  shows "int (total_effective_length (retained_text_nodes p)) \<le> limit
         \<and> int (total_length (retained_text_nodes p))
             \<le> limit + int (total_whitespace_length (text_nodes root))"
proof (cases p)
  case Removed
  then show ?thesis using assms(1) by simp
next
  case (Kept r)
  obtain c' where t: "trimNode limit root 0 = (Kept r, c')"
    using assms(2) Kept
    by (cases "trimNode limit root 0") (simp add: trimElementTextToCharLimit_node)
  have "0 < limit"
    using trimNode_removed_iff[of limit root 0] t assms(1) by (cases "limit = 0") auto
  from trim_budget(1)[OF this t] show ?thesis using Kept by auto
qed

theorem budget_respected_effective_witness:
  "(0::int) \<le> 3
   \<and> trimElementTextToCharLimit (Some scenario3) 3 =
       Inr (Kept (Element ''div'' []
                    [Text (utf16 ''AB''), Element ''span'' [] [Text (utf16 ''C'')]]))
   \<and> int (total_effective_length (retained_text_nodes
        (Kept (Element ''div'' []
                 [Text (utf16 ''AB''), Element ''span'' [] [Text (utf16 ''C'')]])))) \<le> 3
   \<and> int (total_length (retained_text_nodes
        (Kept (Element ''div'' []
                 [Text (utf16 ''AB''), Element ''span'' [] [Text (utf16 ''C'')]]))))
       \<le> 3 + int (total_whitespace_length (text_nodes scenario3))"
proof -
  have h1: "(0::int) \<le> 3" by simp
  have h2: "trimElementTextToCharLimit (Some scenario3) 3 =
       Inr (Kept (Element ''div'' []
                    [Text (utf16 ''AB''), Element ''span'' [] [Text (utf16 ''C'')]]))"
    by (simp add: eval_defs)
  show ?thesis using h1 h2 budget_respected_effective[OF h1 h2] by simp
qed

text \<open>
  The bound does not hold for the plain sum of the lengths: in \<open><p>   </p>\<close> with
  limit 1 the text node of three spaces is retained.
\<close>

theorem budget_whitespace_counterexample:
  "trimElementTextToCharLimit (Some scenario2) 1 = Inr (Kept scenario2)
   \<and> \<not> int (total_length (retained_text_nodes (Kept scenario2))) \<le> 1"
  by (simp add: eval_defs)

section \<open>Whitespace-only trees\<close>

text \<open>
  C2. With limit 0 the first test of \<open>trimNode\<close> holds at once and \<open>remove()\<close> is
  called on the root, whatever the tree contains; a whitespace-only tree is left
  unchanged for every limit of at least 1.
\<close>

theorem whitespace_only_unchanged:
  "trimElementTextToCharLimit (Some root) 0 = Inr Removed
   \<and> (whitespace_only root \<and> 0 < limit \<longrightarrow>
        trimElementTextToCharLimit (Some root) limit = Inr (Kept root))"
proof -
  have "fst (trimNode 0 root 0) = Removed" by (simp add: trimNode_removed_iff)
  moreover have "trimNode limit root 0 = (Kept root, 0)" if "whitespace_only root" "0 < limit"
    using trim_unchanged(1)[of 0 root limit] that
    by (simp add: whitespace_only_def whitespace_only_effective)
  ultimately show ?thesis by (simp add: trimElementTextToCharLimit_node)
qed

theorem whitespace_only_unchanged_witness:
  "whitespace_only scenario2 \<and> (0::int) < 1
   \<and> trimElementTextToCharLimit (Some scenario2) 0 = Inr Removed
   \<and> trimElementTextToCharLimit (Some scenario2) 1 = Inr (Kept scenario2)"
proof -
  have h: "whitespace_only scenario2" by (simp add: eval_defs)
  show ?thesis using h whitespace_only_unchanged[of scenario2 1] by simp
qed

text \<open>
  With limit 0 the whitespace-only tree \<open><p>   </p>\<close> is not left in place: the root
  is removed from its parent.
\<close>

theorem whitespace_limit0_counterexample:
  "whitespace_only scenario2
   \<and> trimElementTextToCharLimit (Some scenario2) 0 = Inr Removed
   \<and> trimElementTextToCharLimit (Some scenario2) 0 \<noteq> Inr (Kept scenario2)"
  by (simp add: eval_defs)

section \<open>Scenario 3\<close>

text \<open>
  C3. On \<open><div>AB<span>CD</span>EF</div>\<close> with limit 3 the text node \<open>AB\<close> is kept
  unchanged, the span is kept and its text becomes \<open>C\<close>, the text node \<open>EF\<close> is
  removed, and the running count ends at 4.
\<close>

theorem scenario3_trimmed:
  "trimElementTextToCharLimit (Some scenario3) 3 =
     Inr (Kept (Element ''div'' []
                  [Text (utf16 ''AB''), Element ''span'' [] [Text (utf16 ''C'')]]))
   \<and> snd (trimNode 3 scenario3 0) = 4"
  by (simp add: eval_defs)

section \<open>Text nodes\<close>

text \<open>
  C4. A text node reached with \<open>count < limit\<close> advances the counter by its full
  effective length, the length before any truncation, whether or not its content was
  truncated.
\<close>

theorem count_advances_by_effective_length:
  "count < limit \<Longrightarrow>
     snd (trimNode limit (Text t) count) = count + int (effective_length t)"
  by (simp add: Let_def effective_length_def)

theorem count_advances_by_effective_length_witness:
  "(2::int) < 3
   \<and> snd (trimNode 3 (Text (utf16 ''CD'')) 2) = 2 + int (effective_length (utf16 ''CD''))
   \<and> 2 + int (effective_length (utf16 ''CD'')) = 4"
proof -
  have h: "(2::int) < 3" by simp
  have e: "2 + int (effective_length (utf16 ''CD'')) = 4" by (simp add: eval_defs)
  show ?thesis using h e count_advances_by_effective_length[OF h, of "utf16 ''CD''"] by simp
qed

text \<open>
  C5. A text node with a non-whitespace code unit, reached with \<open>count < limit\<close> and
  with \<open>count + effective_length > limit\<close>, has its content set to the first
  \<open>limit - count\<close> code units of its original content, and that prefix has exactly
  \<open>limit - count\<close> code units.
\<close>

theorem truncated_to_prefix:
  assumes "regex_test_S t" and "count < limit"
    and "count + int (effective_length t) > limit"
  shows "fst (trimNode limit (Text t) count) = Kept (Text (take (nat (limit - count)) t))
         \<and> length (take (nat (limit - count)) t) = nat (limit - count)"
  using assms by (auto simp: Let_def effective_length_def slice_from0_take)

theorem truncated_to_prefix_witness:
  "regex_test_S (utf16 ''CD'') \<and> (2::int) < 3
   \<and> 2 + int (effective_length (utf16 ''CD'')) > 3
   \<and> fst (trimNode 3 (Text (utf16 ''CD'')) 2) = Kept (Text (utf16 ''C''))"
proof -
  have h1: "regex_test_S (utf16 ''CD'')" by (simp add: eval_defs)
  have h2: "(2::int) < 3" by simp
  have h3: "2 + int (effective_length (utf16 ''CD'')) > 3" by (simp add: eval_defs)
  show ?thesis using h1 h2 h3 truncated_to_prefix[OF h1 h2 h3] by (simp add: utf16_def)
qed

section \<open>Limits above the text of the tree\<close>

text \<open>
  C6. If \<open>limit\<close> is strictly greater than the total effective text length of the
  tree, the call changes nothing: no node is removed and no text is altered.
\<close>

theorem unchanged_above_total:
  "int (total_effective_length (text_nodes root)) < limit \<Longrightarrow>
     trimElementTextToCharLimit (Some root) limit = Inr (Kept root)"
  using trim_unchanged(1)[of 0 root limit] by (simp add: trimElementTextToCharLimit_node)

theorem unchanged_above_total_witness:
  "int (total_effective_length (text_nodes text_then_br)) < 3
   \<and> trimElementTextToCharLimit (Some text_then_br) 3 = Inr (Kept text_then_br)"
proof -
  have h: "int (total_effective_length (text_nodes text_then_br)) < 3" by (simp add: eval_defs)
  show ?thesis using h unchanged_above_total[OF h] by simp
qed

text \<open>
  At equality the tree can change: in \<open><div>AB<br></div>\<close> with limit 2 the counter
  reaches the limit after \<open>AB\<close> and the \<open>br\<close> element that follows is removed.
\<close>

theorem limit_equal_total_counterexample:
  "int (total_effective_length (text_nodes text_then_br)) \<le> 2
   \<and> trimElementTextToCharLimit (Some text_then_br) 2 =
       Inr (Kept (Element ''div'' [] [Text (utf16 ''AB'')]))
   \<and> trimElementTextToCharLimit (Some text_then_br) 2 \<noteq> Inr (Kept text_then_br)"
  by (simp add: eval_defs)

section \<open>Exceptions and termination\<close>

text \<open>
  C7. On a node the function throws nothing, for every integer limit, and neither does
  any invocation of \<open>trimNode\<close> on a node, whatever the count. On \<open>null\<close> it throws a
  \<open>TypeError\<close> for every integer limit: from \<open>node.remove()\<close> when the limit is at most
  zero, from \<open>node.nodeType\<close> otherwise.
\<close>

theorem no_exception_unless_null:
  "trimElementTextToCharLimit None limit =
     Inl (TypeError (if limit \<le> 0 then ''remove'' else ''nodeType''))
   \<and> (\<exists>p. trimElementTextToCharLimit (Some node) limit = Inr p)
   \<and> (\<exists>r. trimNode_ref limit (Some node) count = Inr r)"
proof -
  have "trimElementTextToCharLimit None limit =
      Inl (TypeError (if limit \<le> 0 then ''remove'' else ''nodeType''))"
    by (cases "limit \<le> 0") (simp_all add: trimElementTextToCharLimit_def)
  moreover have "trimElementTextToCharLimit (Some node) limit = Inr (fst (trimNode limit node 0))"
    by (rule trimElementTextToCharLimit_node)
  moreover have "trimNode_ref limit (Some node) count = Inr (trimNode limit node count)"
    by (rule trim_ref_node(1))
  ultimately show ?thesis by simp
qed

text \<open>
  A call with \<open>root = null\<close> is not a no-op: with limit 0 the guard holds and
  \<open>null.remove()\<close> throws.
\<close>

theorem null_root_throws:
  "trimElementTextToCharLimit None 0 = Inl (TypeError ''remove'')"
  by (simp add: trimElementTextToCharLimit_def)

text \<open>
  C8. The function returns on every tree and every integer limit, and it invokes
  \<open>trimNode\<close> at most once per node of the tree. (\<open>trimNode\<close> and the loop are
  defined by well-founded recursion on the tree, which is what makes them total.)
\<close>

theorem visits_bounded_by_size:
  "(\<exists>p. trimElementTextToCharLimit (Some root) limit = Inr p)
   \<and> T_trimNode limit root 0 \<le> count_nodes root"
  by (simp add: trimElementTextToCharLimit_node T_trim_bound(1))

section \<open>What the call may change\<close>

text \<open>
  C9. Every text node that remains in the tree has a content that is a prefix of the
  content it had before the call, and the remaining text nodes are in their original
  order.
\<close>

theorem retained_text_is_prefix:
  assumes "trimElementTextToCharLimit (Some root) limit = Inr (Kept r)"
  shows "text_prefixes r root"
proof -
  obtain c' where t: "trimNode limit root 0 = (Kept r, c')"
    using assms by (cases "trimNode limit root 0") (simp add: trimElementTextToCharLimit_node)
  have "0 < limit" using trimNode_removed_iff[of limit root 0] t by auto
  from trim_text_prefixes(1)[OF this t] show ?thesis .
qed

theorem retained_text_is_prefix_witness:
  "trimElementTextToCharLimit (Some scenario3) 3 =
       Inr (Kept (Element ''div'' []
                    [Text (utf16 ''AB''), Element ''span'' [] [Text (utf16 ''C'')]]))
   \<and> text_prefixes
        (Element ''div'' [] [Text (utf16 ''AB''), Element ''span'' [] [Text (utf16 ''C'')]])
        scenario3"
proof -
  have h: "trimElementTextToCharLimit (Some scenario3) 3 =
       Inr (Kept (Element ''div'' []
                    [Text (utf16 ''AB''), Element ''span'' [] [Text (utf16 ''C'')]]))"
    by (simp add: eval_defs)
  show ?thesis using h retained_text_is_prefix[OF h] by simp
qed

text \<open>
  C10. The tree that remains is the original one with nodes detached and text contents
  shortened: every element keeps its tag name and its attributes, other character data
  keeps its content, and no node is new.
\<close>

theorem only_detach_and_shorten:
  assumes "trimElementTextToCharLimit (Some root) limit = Inr (Kept r)"
  shows "pruned_from r root"
proof -
  obtain c' where t: "trimNode limit root 0 = (Kept r, c')"
    using assms by (cases "trimNode limit root 0") (simp add: trimElementTextToCharLimit_node)
  have "0 < limit" using trimNode_removed_iff[of limit root 0] t by auto
  from trim_pruned(1)[OF this t] show ?thesis .
qed

theorem only_detach_and_shorten_witness:
  "trimElementTextToCharLimit (Some scenario3) 3 =
       Inr (Kept (Element ''div'' []
                    [Text (utf16 ''AB''), Element ''span'' [] [Text (utf16 ''C'')]]))
   \<and> pruned_from
        (Element ''div'' [] [Text (utf16 ''AB''), Element ''span'' [] [Text (utf16 ''C'')]])
        scenario3"
proof -
  have h: "trimElementTextToCharLimit (Some scenario3) 3 =
       Inr (Kept (Element ''div'' []
                    [Text (utf16 ''AB''), Element ''span'' [] [Text (utf16 ''C'')]]))"
    by (simp add: eval_defs)
  show ?thesis using h only_detach_and_shorten[OF h] by simp
qed

end
